theory Spec2Isabelle
  imports Main
begin

section \<open>Python string primitives\<close>

text \<open>
  A Python \<open>str\<close> is a sequence of code points, lone surrogates included; it is
  modelled as the list of their numbers.  \<open>ustr\<close> gives the text of a literal.
\<close>

type_synonym pystr = "nat list"

definition ustr :: "string \<Rightarrow> pystr" where
  "ustr s = map of_char s"

text \<open>
  The tools work on these texts with \<open>in\<close>, \<open>str.count\<close> and \<open>str.replace\<close>.
  \<open>str.count\<close> counts non-overlapping occurrences from the left, \<open>str.replace\<close>
  replaces those same occurrences, and both treat the empty pattern specially: it occurs
  before every character and at the end.
\<close>

fun starts_with :: "'a list \<Rightarrow> 'a list \<Rightarrow> bool" where
  "starts_with s [] = True"
| "starts_with [] (p # ps) = False"
| "starts_with (c # cs) (p # ps) = (c = p \<and> starts_with cs ps)"

text \<open>\<open>sub in s\<close>.\<close>

fun str_in :: "'a list \<Rightarrow> 'a list \<Rightarrow> bool" where
  "str_in sub [] = (sub = [])"
| "str_in sub (c # cs) = (starts_with (c # cs) sub \<or> str_in sub cs)"

text \<open>\<open>s.count(sub)\<close> for a non-empty \<open>sub\<close>: after a match the scan resumes behind it.\<close>

fun count_from :: "'a list \<Rightarrow> 'a list \<Rightarrow> nat" where
  "count_from [] sub = 0"
| "count_from (c # cs) sub =
     (if starts_with (c # cs) sub then Suc (count_from (drop (length sub - 1) cs) sub)
      else count_from cs sub)"

definition str_count :: "'a list \<Rightarrow> 'a list \<Rightarrow> nat" where
  "str_count s sub = (if sub = [] then length s + 1 else count_from s sub)"

text \<open>\<open>s.replace(old, new)\<close>: every non-overlapping occurrence, left to right.\<close>

fun replace_from :: "'a list \<Rightarrow> 'a list \<Rightarrow> 'a list \<Rightarrow> 'a list" where
  "replace_from [] old new = []"
| "replace_from (c # cs) old new =
     (if starts_with (c # cs) old then new @ replace_from (drop (length old - 1) cs) old new
      else c # replace_from cs old new)"

definition str_replace :: "'a list \<Rightarrow> 'a list \<Rightarrow> 'a list \<Rightarrow> 'a list" where
  "str_replace s old new =
     (if old = [] then new @ concat (map (\<lambda>c. c # new) s) else replace_from s old new)"

text \<open>\<open>s.replace(old, new, 1)\<close>: the leftmost occurrence only.\<close>

fun replace_first :: "'a list \<Rightarrow> 'a list \<Rightarrow> 'a list \<Rightarrow> 'a list" where
  "replace_first [] old new = []"
| "replace_first (c # cs) old new =
     (if starts_with (c # cs) old then new @ drop (length old - 1) cs
      else c # replace_first cs old new)"

definition str_replace1 :: "'a list \<Rightarrow> 'a list \<Rightarrow> 'a list \<Rightarrow> 'a list" where
  "str_replace1 s old new = (if old = [] then new @ s else replace_first s old new)"

text \<open>\<open>str(n)\<close> for a non-negative integer, as the f-strings print counts and positions.\<close>

fun str_nat :: "nat \<Rightarrow> pystr" where
  "str_nat n =
     (if n < 10 then [48 + n] else str_nat (n div 10) @ [48 + n mod 10])"

declare str_nat.simps [simp del]

text \<open>A value between single quotes (code point 39), as in \<open>f"'{self.file_path}'"\<close>.\<close>

definition quoted :: "pystr \<Rightarrow> pystr" where
  "quoted s = 39 # s @ [39]"

section \<open>The file system the tools run against\<close>

text \<open>
  The tools reach the file system through \<open>os.path\<close>, \<open>os.makedirs\<close> and \<open>open\<close>
  in text mode, on a POSIX system.  The model keeps a map from path strings to nodes, taken
  literally (no normalisation of \<open>..\<close>, repeated slashes or links), and a log of the
  mutations performed, so that "no write" and "one write" are statements about the log.
  A file is readable or not, writable or not, and its bytes decode as UTF-8 text or do
  not (\<open>None\<close>); the text is kept as the bytes spell it, line ends untranslated.  A
  directory admits new entries or not.
\<close>

datatype exn =
    PermissionError
  | UnicodeDecodeError
  | UnicodeEncodeError pystr
  | JSONDecodeError pystr
  | OtherException pystr

record regfile =
  can_read :: bool
  can_write :: bool
  decoded :: "pystr option"

datatype node = Dir bool | File regfile

text \<open>The log: a directory made, a file written in full, a file opened for writing and
  left with the given content when the write raised.\<close>

datatype event = MadeDir pystr | Wrote pystr pystr | Broken pystr pystr

record fs =
  nodes :: "pystr \<rightharpoonup> node"
  events :: "event list"

definition isabs :: "pystr \<Rightarrow> bool" where
  "isabs p = starts_with p (ustr ''/'')"

definition path_exists :: "fs \<Rightarrow> pystr \<Rightarrow> bool" where
  "path_exists s p = (nodes s p \<noteq> None)"

definition isfile :: "fs \<Rightarrow> pystr \<Rightarrow> bool" where
  "isfile s p = (case nodes s p of Some (File f) \<Rightarrow> True | _ \<Rightarrow> False)"

text \<open>\<open>posixpath.dirname\<close>: everything up to the last slash (code point 47), trailing
  slashes stripped unless nothing else is left.\<close>

definition rstrip_slash :: "pystr \<Rightarrow> pystr" where
  "rstrip_slash p = rev (dropWhile (\<lambda>c. c = 47) (rev p))"

definition dirname :: "pystr \<Rightarrow> pystr" where
  "dirname p =
     (let head = rev (dropWhile (\<lambda>c. c \<noteq> 47) (rev p))
      in if head \<noteq> [] \<and> \<not> list_all (\<lambda>c. c = 47) head then rstrip_slash head
         else head)"

text \<open>Reading in text mode translates line ends: \<open>\r\n\<close> and a lone \<open>\r\<close> (13)
  both arrive as \<open>\n\<close> (10).\<close>

fun universal_newlines :: "pystr \<Rightarrow> pystr" where
  "universal_newlines [] = []"
| "universal_newlines [c] = [if c = 13 then 10 else c]"
| "universal_newlines (c # d # cs) =
     (if c = 13 \<and> d = 10 then 10 # universal_newlines cs
      else if c = 13 then 10 # universal_newlines (d # cs)
      else c # universal_newlines (d # cs))"

text \<open>\<open>open(p, 'r', encoding='utf-8').read()\<close>.\<close>

definition read_text :: "fs \<Rightarrow> pystr \<Rightarrow> exn + pystr" where
  "read_text s p =
     (case nodes s p of
        None \<Rightarrow> Inl (OtherException (ustr ''[Errno 2] No such file or directory: '' @ quoted p))
      | Some (Dir w) \<Rightarrow> Inl (OtherException (ustr ''[Errno 21] Is a directory: '' @ quoted p))
      | Some (File f) \<Rightarrow>
          if \<not> can_read f then Inl PermissionError
          else (case decoded f of
                  None \<Rightarrow> Inl UnicodeDecodeError
                | Some t \<Rightarrow> Inr (universal_newlines t)))"

text \<open>
  Writing encodes the text as UTF-8, which fails on a lone surrogate (U+D800 to U+DFFF).
  The message of the \<open>UnicodeEncodeError\<close> names the first run of surrogates.
\<close>

definition is_surrogate :: "nat \<Rightarrow> bool" where
  "is_surrogate c = (55296 \<le> c \<and> c \<le> 57343)"

definition encodable :: "pystr \<Rightarrow> bool" where
  "encodable t = list_all (\<lambda>c. \<not> is_surrogate c) t"

definition hex4 :: "nat \<Rightarrow> pystr" where
  "hex4 c = map (\<lambda>d. ustr ''0123456789abcdef'' ! d)
              [c div 4096 mod 16, c div 256 mod 16, c div 16 mod 16, c mod 16]"

definition encode_error :: "pystr \<Rightarrow> exn" where
  "encode_error t =
     (let start = length (takeWhile (\<lambda>c. \<not> is_surrogate c) t);
          run = length (takeWhile is_surrogate (drop start t))
      in UnicodeEncodeError
           (if run = 1
            then quoted (ustr ''utf-8'') @ ustr '' codec can't encode character '' @
                 quoted ([92, 117] @ hex4 (t ! start)) @ ustr '' in position '' @
                 str_nat start @ ustr '': surrogates not allowed''
            else quoted (ustr ''utf-8'') @ ustr '' codec can't encode characters in position '' @
                 str_nat start @ ustr ''-'' @ str_nat (start + run - 1) @
                 ustr '': surrogates not allowed''))"

text \<open>
  \<open>with open(p, 'w', encoding='utf-8') as file\<close> followed by one \<open>file.write\<close> per
  chunk.  Opening replaces the content of an existing file by nothing, or creates the file
  in an existing directory; then the chunks are written in turn.  When a chunk does not
  encode, the write raises and the file is left with the chunks written before it.
  \<open>Inl\<close> carries the exception and the file system it leaves.
\<close>

definition put_chunks :: "fs \<Rightarrow> pystr \<Rightarrow> regfile \<Rightarrow> pystr list \<Rightarrow> exn \<times> fs + fs" where
  "put_chunks s p f chunks =
     (let written = takeWhile encodable chunks
      in if length written = length chunks
         then Inr (s\<lparr>nodes := (nodes s)(p \<mapsto> File (f\<lparr>decoded := Some (concat chunks)\<rparr>)),
                     events := events s @ [Wrote p (concat chunks)]\<rparr>)
         else Inl (encode_error (chunks ! length written),
                   s\<lparr>nodes := (nodes s)(p \<mapsto> File (f\<lparr>decoded := Some (concat written)\<rparr>)),
                     events := events s @ [Broken p (concat written)]\<rparr>))"

definition write_chunks :: "fs \<Rightarrow> pystr \<Rightarrow> pystr list \<Rightarrow> exn \<times> fs + fs" where
  "write_chunks s p chunks =
     (case nodes s p of
        Some (Dir w) \<Rightarrow>
          Inl (OtherException (ustr ''[Errno 21] Is a directory: '' @ quoted p), s)
      | Some (File f) \<Rightarrow>
          if can_write f then put_chunks s p f chunks else Inl (PermissionError, s)
      | None \<Rightarrow>
          if p = [] \<or> last p = 47
          then Inl (OtherException (ustr ''[Errno 21] Is a directory: '' @ quoted p), s)
          else (case nodes s (dirname p) of
                  Some (Dir w) \<Rightarrow>
                    if w
                    then put_chunks s p
                           \<lparr>can_read = True, can_write = True, decoded = Some []\<rparr> chunks
                    else Inl (PermissionError, s)
                | Some (File f) \<Rightarrow>
                    Inl (OtherException (ustr ''[Errno 20] Not a directory: '' @ quoted p), s)
                | None \<Rightarrow>
                    Inl (OtherException
                           (ustr ''[Errno 2] No such file or directory: '' @ quoted p), s)))"

text \<open>\<open>file.write(t)\<close> of the whole text at once.\<close>

definition write_text :: "fs \<Rightarrow> pystr \<Rightarrow> pystr \<Rightarrow> exn \<times> fs + fs" where
  "write_text s p t = write_chunks s p [t]"

section \<open>Edit: one exact string replacement\<close>

text \<open>
  \<open>Edit.run\<close> (Edit.py).  The body of the \<open>try\<close> block returns either the exception
  that left it or the response string, with the file system as it is at that moment;
  \<open>Edit_run\<close> wraps it in the checks that precede the block and in the handlers.
\<close>

definition Edit_try :: "fs \<Rightarrow> pystr \<Rightarrow> pystr \<Rightarrow> pystr \<Rightarrow> bool \<Rightarrow> (exn + pystr) \<times> fs" where
  "Edit_try s file_path old_string new_string replace_all =
     (case read_text s file_path of
        Inl e \<Rightarrow> (Inl e, s)
      | Inr content \<Rightarrow>
          if \<not> str_in old_string content
          then (Inr (ustr ''Error: String '' @ quoted old_string @ ustr '' not found in file '' @
                     quoted file_path), s)
          else if \<not> replace_all \<and> str_count content old_string > 1
          then (Inr (ustr ''Error: String '' @ quoted old_string @ ustr '' appears '' @
                     str_nat (str_count content old_string) @
                     (ustr '' times in the file. Either provide a larger string with more context to make it unique, or use replace_all=True to change all instances.'')), s)
          else
            let new_content = (if replace_all then str_replace content old_string new_string
                               else str_replace1 content old_string new_string);
                replacement_count = (if replace_all then str_count content old_string else 1)
            in (case write_text s file_path new_content of
                  Inl (e, s') \<Rightarrow> (Inl e, s')
                | Inr s' \<Rightarrow>
                    if replacement_count = 1
                    then (Inr (ustr ''Successfully replaced 1 occurrence of the specified text in '' @
                               quoted file_path), s')
                    else (Inr (ustr ''Successfully replaced '' @ str_nat replacement_count @
                               (ustr '' occurrences of the specified text in '') @
                               quoted file_path), s')))"

fun exn_str :: "exn \<Rightarrow> pystr" where
  "exn_str (OtherException m) = m"
| "exn_str (JSONDecodeError m) = m"
| "exn_str (UnicodeEncodeError m) = m"
| "exn_str PermissionError = ustr ''[Errno 13] Permission denied''"
| "exn_str UnicodeDecodeError =
     quoted (ustr ''utf-8'') @ ustr '' codec can't decode bytes: invalid data''"

definition Edit_run :: "fs \<Rightarrow> pystr \<Rightarrow> pystr \<Rightarrow> pystr \<Rightarrow> bool \<Rightarrow> pystr \<times> fs" where
  "Edit_run s file_path old_string new_string replace_all =
     (if old_string = new_string
      then (ustr ''Error: old_string and new_string must be different'', s)
      else if \<not> isabs file_path
      then (ustr ''Error: File path must be absolute, not relative. Received: '' @ file_path, s)
      else if \<not> path_exists s file_path
      then (ustr ''Error: File '' @ quoted file_path @ ustr '' does not exist'', s)
      else if \<not> isfile s file_path
      then (ustr ''Error: '' @ quoted file_path @ ustr '' is not a file'', s)
      else
        (case Edit_try s file_path old_string new_string replace_all of
           (Inr msg, s') \<Rightarrow> (msg, s')
         | (Inl PermissionError, s') \<Rightarrow>
             (ustr ''Error: Permission denied modifying file '' @ quoted file_path, s')
         | (Inl UnicodeDecodeError, s') \<Rightarrow>
             (ustr ''Error: File '' @ quoted file_path @
              (ustr '' contains non-UTF-8 content and cannot be edited as text''), s')
         | (Inl e, s') \<Rightarrow>
             (ustr ''Error editing file '' @ quoted file_path @ ustr '': '' @ exn_str e, s')))"

section \<open>MultiEdit: a sequence of replacements on one file\<close>

text \<open>\<open>os.mkdir(name)\<close>: the parent must be a directory that admits new entries.\<close>

definition mkdir :: "fs \<Rightarrow> pystr \<Rightarrow> exn + fs" where
  "mkdir s name =
     (case nodes s name of
        Some n \<Rightarrow> Inl (OtherException (ustr ''[Errno 17] File exists: '' @ quoted name))
      | None \<Rightarrow>
          if name = []
          then Inl (OtherException (ustr ''[Errno 2] No such file or directory: '' @ quoted name))
          else (case nodes s (dirname name) of
                  Some (Dir w) \<Rightarrow>
                    if w
                    then Inr (s\<lparr>nodes := (nodes s)(name \<mapsto> Dir True),
                                events := events s @ [MadeDir name]\<rparr>)
                    else Inl PermissionError
                | Some (File f) \<Rightarrow>
                    Inl (OtherException (ustr ''[Errno 20] Not a directory: '' @ quoted name))
                | None \<Rightarrow>
                    Inl (OtherException
                           (ustr ''[Errno 2] No such file or directory: '' @ quoted name))))"

text \<open>\<open>os.makedirs(name, exist_ok=True)\<close>: an existing directory is accepted as it is;
  otherwise the missing ancestors are made first, outermost first, then the directory
  itself.\<close>

function makedirs :: "fs \<Rightarrow> pystr \<Rightarrow> exn + fs" where
  "makedirs s name =
     (case nodes s name of
        Some (Dir w) \<Rightarrow> Inr s
      | Some (File f) \<Rightarrow> Inl (OtherException (ustr ''[Errno 17] File exists: '' @ quoted name))
      | None \<Rightarrow>
          (case (if dirname name \<noteq> [] \<and> length (dirname name) < length name \<and>
                    nodes s (dirname name) = None
                 then makedirs s (dirname name) else Inr s) of
             Inl e \<Rightarrow> Inl e
           | Inr s1 \<Rightarrow> mkdir s1 name))"
  by pat_completeness auto
termination
  by (relation "measure (\<lambda>(s, name). length name)") auto

declare makedirs.simps [simp del]

record edit_operation =
  old_string :: pystr
  new_string :: pystr
  replace_all :: bool

text \<open>\<open>"\n".join(lines)\<close>.\<close>

fun join :: "pystr \<Rightarrow> pystr list \<Rightarrow> pystr" where
  "join sep [] = []"
| "join sep [x] = x"
| "join sep (x # y # ys) = x @ sep @ join sep (y # ys)"

text \<open>
  Step 6 of \<open>MultiEdit.run\<close>: the validation loop over \<open>enumerate(self.edits)\<close>, with
  the index \<open>i\<close> and the scratch content \<open>validation_content\<close> as arguments.  \<open>Inl\<close>
  is the error string the loop returns with, \<open>Inr\<close> the scratch content after the last
  edit.
\<close>

fun validate_edits :: "bool \<Rightarrow> nat \<Rightarrow> edit_operation list \<Rightarrow> pystr \<Rightarrow> pystr + pystr" where
  "validate_edits file_exists i [] validation_content = Inr validation_content"
| "validate_edits file_exists i (edit # rest) validation_content =
     (if old_string edit = new_string edit
      then Inl (ustr ''Error in edit '' @ str_nat (i + 1) @
                (ustr '': old_string and new_string must be different''))
      else if \<not> file_exists \<and> i = 0 \<and> old_string edit = []
      then validate_edits file_exists (i + 1) rest (new_string edit)
      else if \<not> str_in (old_string edit) validation_content
      then Inl (ustr ''Error in edit '' @ str_nat (i + 1) @ ustr '': String '' @
                quoted (old_string edit) @ ustr '' not found in file content'')
      else if \<not> replace_all edit \<and> str_count validation_content (old_string edit) > 1
      then Inl (ustr ''Error in edit '' @ str_nat (i + 1) @ ustr '': String '' @
                quoted (old_string edit) @ ustr '' appears '' @
                str_nat (str_count validation_content (old_string edit)) @
                (ustr '' times. Either provide a larger string with more context or use replace_all=True''))
      else validate_edits file_exists (i + 1) rest
             (if replace_all edit
              then str_replace validation_content (old_string edit) (new_string edit)
              else str_replace1 validation_content (old_string edit) (new_string edit)))"

text \<open>Step 7: the loop that applies the edits, with \<open>current_content\<close> and the list
  \<open>edit_results\<close> as arguments.\<close>

fun apply_edits ::
  "bool \<Rightarrow> nat \<Rightarrow> edit_operation list \<Rightarrow> pystr \<Rightarrow> pystr list \<Rightarrow> pystr \<times> pystr list" where
  "apply_edits file_exists i [] current_content edit_results =
     (current_content, edit_results)"
| "apply_edits file_exists i (edit # rest) current_content edit_results =
     (if \<not> file_exists \<and> i = 0 \<and> old_string edit = []
      then apply_edits file_exists (i + 1) rest (new_string edit)
             (edit_results @
              [ustr ''Edit '' @ str_nat (i + 1) @ ustr '': Created new file with content''])
      else if replace_all edit
      then apply_edits file_exists (i + 1) rest
             (str_replace current_content (old_string edit) (new_string edit))
             (edit_results @
              [ustr ''Edit '' @ str_nat (i + 1) @ ustr '': Replaced '' @
               str_nat (str_count current_content (old_string edit)) @ ustr '' occurrences''])
      else apply_edits file_exists (i + 1) rest
             (str_replace1 current_content (old_string edit) (new_string edit))
             (edit_results @ [ustr ''Edit '' @ str_nat (i + 1) @ ustr '': Replaced 1 occurrence'']))"

definition MultiEdit_try :: "fs \<Rightarrow> pystr \<Rightarrow> edit_operation list \<Rightarrow> (exn + pystr) \<times> fs" where
  "MultiEdit_try s file_path edits =
     (let file_exists = path_exists s file_path
      in case (if file_exists then read_text s file_path else Inr []) of
           Inl e \<Rightarrow> (Inl e, s)
         | Inr content \<Rightarrow>
             (case validate_edits file_exists 0 edits content of
                Inl msg \<Rightarrow> (Inr msg, s)
              | Inr validation_content \<Rightarrow>
                  (case apply_edits file_exists 0 edits content [] of
                     (current_content, edit_results) \<Rightarrow>
                       (case makedirs s (dirname file_path) of
                          Inl e \<Rightarrow> (Inl e, s)
                        | Inr s1 \<Rightarrow>
                            (case write_text s1 file_path current_content of
                               Inl (e, s2) \<Rightarrow> (Inl e, s2)
                             | Inr s2 \<Rightarrow>
                                 (Inr (join (ustr ''\<newline>'')
                                        ((ustr ''Successfully applied '' @ str_nat (length edits) @
                                          (ustr '' edits to '') @ quoted file_path @ ustr '':'') #
                                         edit_results)), s2))))))"

definition MultiEdit_run :: "fs \<Rightarrow> pystr \<Rightarrow> edit_operation list \<Rightarrow> pystr \<times> fs" where
  "MultiEdit_run s file_path edits =
     (if \<not> isabs file_path
      then (ustr ''Error: File path must be absolute, not relative. Received: '' @ file_path, s)
      else if edits = []
      then (ustr ''Error: At least one edit operation must be provided'', s)
      else if \<not> path_exists s file_path \<and> old_string (hd edits) \<noteq> []
      then (ustr ''Error: File '' @ quoted file_path @
            (ustr '' does not exist. To create a new file, the first edit must have an empty old_string.''), s)
      else if path_exists s file_path \<and> \<not> isfile s file_path
      then (ustr ''Error: '' @ quoted file_path @ ustr '' is not a file'', s)
      else
        (case MultiEdit_try s file_path edits of
           (Inr msg, s') \<Rightarrow> (msg, s')
         | (Inl PermissionError, s') \<Rightarrow>
             (ustr ''Error: Permission denied modifying file '' @ quoted file_path, s')
         | (Inl UnicodeDecodeError, s') \<Rightarrow>
             (ustr ''Error: File '' @ quoted file_path @
              (ustr '' contains non-UTF-8 content and cannot be edited as text''), s')
         | (Inl e, s') \<Rightarrow>
             (ustr ''Error applying edits to file '' @ quoted file_path @ ustr '': '' @ exn_str e, s')))"

section \<open>Notebook documents\<close>

text \<open>
  A notebook is what \<open>json.load\<close> returns: nested dictionaries, lists, strings, numbers,
  booleans and \<open>None\<close>.  A dictionary is an association list in insertion order, as
  Python keeps it (non-integer numbers do not occur in the fields the tools touch and are
  left out).  The tools are modelled relative to what belongs to the Python library:
  \<open>json.load\<close>; the chunks \<open>json.dump\<close> writes one after the other (those of
  \<open>JSONEncoder.iterencode\<close>); \<open>str\<close> on an arbitrary value; and the two tables of
  the Unicode database that \<open>int\<close> consults for code points from 127 on, whitespace and
  decimal digit values.
\<close>

datatype json =
    JNull
  | JBool bool
  | JNum int
  | JStr pystr
  | JArr "json list"
  | JObj "(pystr \<times> json) list"

record pylib =
  json_loads :: "pystr \<Rightarrow> exn + json"
  json_chunks :: "json \<Rightarrow> pystr list"
  py_str :: "json \<Rightarrow> pystr"
  unicode_isspace :: "nat \<Rightarrow> bool"
  unicode_decimal :: "nat \<Rightarrow> nat option"

text \<open>\<open>d.get(k)\<close>, \<open>d[k] = v\<close>, \<open>d.setdefault(k, v)\<close> and \<open>d.pop(k, None)\<close> on the
  items of a dictionary.\<close>

definition dict_get :: "(pystr \<times> json) list \<Rightarrow> pystr \<Rightarrow> json option" where
  "dict_get kvs k = map_of kvs k"




text \<open>
  \<open>int(s)\<close> on a string, as CPython reads it.  A string that is not all ASCII is first
  brought to ASCII: code points below 127 stay, Unicode whitespace becomes a space, a
  Unicode decimal digit becomes its ASCII digit, anything else makes the conversion fail.
  Then: whitespace of the C locale around (9 to 13 and 32), an optional sign, decimal
  digits with single underscores between them, at most 4300 digits (the interpreter's
  default limit).  \<open>None\<close> stands for \<open>ValueError\<close>.
\<close>

definition ascii_form :: "pylib \<Rightarrow> pystr \<Rightarrow> pystr option" where
  "ascii_form lib s =
     (if list_all (\<lambda>ch. ch < 128) s then Some s
      else those (map (\<lambda>ch. if ch < 127 then Some ch
                            else if unicode_isspace lib ch then Some 32
                            else map_option (\<lambda>d. 48 + d) (unicode_decimal lib ch)) s))"

definition is_space :: "nat \<Rightarrow> bool" where
  "is_space c = ((9 \<le> c \<and> c \<le> 13) \<or> c = 32)"

definition is_digit :: "nat \<Rightarrow> bool" where
  "is_digit c = (48 \<le> c \<and> c \<le> 57)"

definition strip :: "pystr \<Rightarrow> pystr" where
  "strip s = rev (dropWhile is_space (rev (dropWhile is_space s)))"

fun digits_value :: "nat \<Rightarrow> pystr \<Rightarrow> nat option" where
  "digits_value acc [] = Some acc"
| "digits_value acc [c] = (if is_digit c then Some (acc * 10 + (c - 48)) else None)"
| "digits_value acc (c # d # cs) =
     (if is_digit c
      then (if d = 95
            then (if cs = [] then None else digits_value (acc * 10 + (c - 48)) cs)
            else digits_value (acc * 10 + (c - 48)) (d # cs))
      else None)"

definition signed_value :: "pystr \<Rightarrow> int option" where
  "signed_value s =
     (case s of
        [] \<Rightarrow> None
      | c # cs \<Rightarrow>
          if c = 45 then (if cs = [] then None else map_option (\<lambda>n. - int n) (digits_value 0 cs))
          else if c = 43 then (if cs = [] then None else map_option int (digits_value 0 cs))
          else map_option int (digits_value 0 (c # cs)))"

definition py_int :: "pylib \<Rightarrow> pystr \<Rightarrow> int option" where
  "py_int lib s =
     (case ascii_form lib s of
        None \<Rightarrow> None
      | Some a \<Rightarrow>
          if length (filter is_digit (strip a)) > 4300 then None
          else signed_value (strip a))"






text \<open>The operations of Python the tools apply to values of unknown shape, with the
  exception each raises on a value of the wrong type.\<close>

fun type_name :: "json \<Rightarrow> pystr" where
  "type_name JNull = ustr ''NoneType''"
| "type_name (JBool b) = ustr ''bool''"
| "type_name (JNum n) = ustr ''int''"
| "type_name (JStr t) = ustr ''str''"
| "type_name (JArr xs) = ustr ''list''"
| "type_name (JObj kvs) = ustr ''dict''"


fun py_iter :: "json \<Rightarrow> exn + json list" where
  "py_iter (JArr xs) = Inr xs"
| "py_iter (JObj kvs) = Inr (map (\<lambda>kv. JStr (fst kv)) kvs)"
| "py_iter (JStr t) = Inr (map (\<lambda>c. JStr [c]) t)"
| "py_iter v = Inl (OtherException (quoted (type_name v) @ ustr '' object is not iterable''))"

fun py_len :: "json \<Rightarrow> exn + nat" where
  "py_len (JArr xs) = Inr (length xs)"
| "py_len (JObj kvs) = Inr (length kvs)"
| "py_len (JStr t) = Inr (length t)"
| "py_len v = Inl (OtherException (ustr ''object of type '' @ quoted (type_name v) @ ustr '' has no len()''))"

text \<open>\<open>v[i]\<close> for an index \<open>i \<ge> 0\<close>.\<close>

fun py_getitem :: "json \<Rightarrow> nat \<Rightarrow> exn + json" where
  "py_getitem (JArr xs) i =
     (if i < length xs then Inr (xs ! i) else Inl (OtherException (ustr ''list index out of range'')))"
| "py_getitem (JStr t) i =
     (if i < length t then Inr (JStr [t ! i])
      else Inl (OtherException (ustr ''string index out of range'')))"
| "py_getitem (JObj kvs) i = Inl (OtherException (str_nat i))"
| "py_getitem v i =
     Inl (OtherException (quoted (type_name v) @ ustr '' object is not subscriptable''))"

text \<open>\<open>v.get(k)\<close>.\<close>

fun py_get :: "json \<Rightarrow> pystr \<Rightarrow> exn + json option" where
  "py_get (JObj kvs) k = Inr (dict_get kvs k)"
| "py_get v k =
     Inl (OtherException (quoted (type_name v) @ ustr '' object has no attribute '' @ quoted (ustr ''get'')))"







section \<open>NotebookEdit and the cell lookup of NotebookRead\<close>




text \<open>
  Step 7 of \<open>NotebookEdit.run\<close> with a \<open>cell_id\<close>: the loop over
  \<open>enumerate(cells)\<close> that looks for a cell whose \<open>id\<close> is \<open>cell_id\<close>, and, when it
  found none, \<open>cell_id\<close> read as an index.
\<close>

fun find_by_id :: "pystr \<Rightarrow> nat \<Rightarrow> json list \<Rightarrow> exn + nat option" where
  "find_by_id cell_id i [] = Inr None"
| "find_by_id cell_id i (cell # rest) =
     (case py_get cell (ustr ''id'') of
        Inl e \<Rightarrow> Inl e
      | Inr v \<Rightarrow> if v = Some (JStr cell_id) then Inr (Some i) else find_by_id cell_id (i + 1) rest)"

definition resolve_edit :: "pylib \<Rightarrow> json \<Rightarrow> pystr \<Rightarrow> exn + nat option" where
  "resolve_edit lib cells cell_id =
     (case py_iter cells of
        Inl e \<Rightarrow> Inl e
      | Inr xs \<Rightarrow>
          (case find_by_id cell_id 0 xs of
             Inl e \<Rightarrow> Inl e
           | Inr (Some i) \<Rightarrow> Inr (Some i)
           | Inr None \<Rightarrow>
               (case py_int lib cell_id of
                  None \<Rightarrow> Inr None
                | Some cell_index \<Rightarrow>
                    if 0 \<le> cell_index \<and> cell_index < int (length xs)
                    then (case py_getitem cells (nat cell_index) of
                            Inl e \<Rightarrow> Inl e
                          | Inr target_cell \<Rightarrow> Inr (Some (nat cell_index)))
                    else Inr None)))"









text \<open>
  Step 6 of \<open>NotebookRead.run\<close>: the loop that picks \<open>target_cell\<close>.  For each cell in
  turn it compares the \<open>id\<close> and, when that differs, tries \<open>cell_id\<close> as an index
  into the whole list.  \<open>JNull\<close> is Python's \<open>None\<close>: no cell found.
\<close>

fun read_loop :: "pylib \<Rightarrow> pystr \<Rightarrow> json \<Rightarrow> json list \<Rightarrow> exn + json" where
  "read_loop lib cell_id cells [] = Inr JNull"
| "read_loop lib cell_id cells (cell # rest) =
     (case py_get cell (ustr ''id'') of
        Inl e \<Rightarrow> Inl e
      | Inr v \<Rightarrow>
          if v = Some (JStr cell_id) then Inr cell
          else (case py_int lib cell_id of
                  None \<Rightarrow> read_loop lib cell_id cells rest
                | Some cell_index \<Rightarrow>
                    (case py_len cells of
                       Inl e \<Rightarrow> Inl e
                     | Inr n \<Rightarrow>
                         if 0 \<le> cell_index \<and> cell_index < int n
                         then py_getitem cells (nat cell_index)
                         else read_loop lib cell_id cells rest)))"

definition read_target :: "pylib \<Rightarrow> json \<Rightarrow> pystr \<Rightarrow> exn + json" where
  "read_target lib cells cell_id =
     (case py_iter cells of Inl e \<Rightarrow> Inl e | Inr xs \<Rightarrow> read_loop lib cell_id cells xs)"

section \<open>TodoWrite\<close>

datatype status = Pending | In_progress | Completed

datatype priority = High | Medium | Low

record todo_item =
  content :: pystr
  status :: status
  priority :: priority
  todo_id :: pystr

text \<open>The symbols of the display.\<close>

fun status_symbol :: "status \<Rightarrow> pystr" where
  "status_symbol Pending = [9203]"
| "status_symbol In_progress = [128260]"
| "status_symbol Completed = [9989]"

fun priority_indicator :: "priority \<Rightarrow> pystr" where
  "priority_indicator High = [128308]"
| "priority_indicator Medium = [128993]"
| "priority_indicator Low = [128994]"

definition party_symbol :: pystr where
  "party_symbol = [127881]"

text \<open>\<open>status.upper().replace('_', ' ')\<close>.\<close>

fun status_title :: "status \<Rightarrow> pystr" where
  "status_title Pending = ustr ''PENDING''"
| "status_title In_progress = ustr ''IN PROGRESS''"
| "status_title Completed = ustr ''COMPLETED''"

fun priority_order :: "priority \<Rightarrow> nat" where
  "priority_order High = 1"
| "priority_order Medium = 2"
| "priority_order Low = 3"

text \<open>One pass of the loop over \<open>status_order\<close>: the lines of one status group, none
  when the group is empty; \<open>list.sort\<close> is stable, as \<open>sort_key\<close> is.\<close>

definition status_group :: "todo_item list \<Rightarrow> status \<Rightarrow> pystr list" where
  "status_group todos st =
     (let status_todos = filter (\<lambda>todo. status todo = st) todos
      in if status_todos = [] then []
         else (status_title st @ ustr '' ('' @ str_nat (length status_todos) @ ustr ''):'') #
              map (\<lambda>todo. (ustr ''  '') @ status_symbol (status todo) @ ustr '' ['' @ todo_id todo @
                            (ustr ''] '') @ priority_indicator (priority todo) @ ustr '' '' @ content todo)
                  (sort_key (\<lambda>x. priority_order (priority x)) status_todos) @
              [[]])"

text \<open>
  \<open>TodoWrite.run\<close>.  The percentage is computed and printed in floating point
  (\<open>f"{completed / total * 100:.0f}"\<close>); the run takes that formatting as the
  function \<open>percent\<close> of the two counts.
\<close>

definition TodoWrite_run :: "(nat \<Rightarrow> nat \<Rightarrow> pystr) \<Rightarrow> todo_item list \<Rightarrow> pystr" where
  "TodoWrite_run percent todos =
     (if todos = [] then ustr ''Error: Todo list cannot be empty''
      else if \<not> distinct (map todo_id todos)
      then ustr ''Error: All todo items must have unique IDs''
      else
        let count = (\<lambda>st. length (filter (\<lambda>todo. status todo = st) todos))
        in if count In_progress > 1
           then ustr ''Warning: Multiple tasks marked as in_progress. Recommended to have only one task in_progress at a time:\<newline>'' @
                join (ustr ''\<newline>'')
                  (map (\<lambda>item. (ustr ''- '') @ item)
                     (map content (filter (\<lambda>todo. status todo = In_progress) todos)))
           else
             join (ustr ''\<newline>'')
               ([ustr ''=== TODO LIST ===\<newline>''] @
                status_group todos In_progress @ status_group todos Pending @
                status_group todos Completed @
                [ustr ''PROGRESS: '' @ str_nat (count Completed) @ ustr ''/'' @ str_nat (length todos) @
                 (ustr '' completed ('') @ percent (count Completed) (length todos) @ ustr ''%)''] @
                [if count In_progress > 0
                 then ustr ''CURRENT FOCUS: '' @
                      content (hd (filter (\<lambda>todo. status todo = In_progress) todos))
                 else if count Pending > 0
                 then ustr ''NEXT UP: '' @
                      content (hd (sort_key (\<lambda>x. priority_order (priority x))
                                     (filter (\<lambda>todo. status todo = Pending) todos)))
                 else party_symbol @ ustr '' All tasks completed!'']))"

section \<open>Vocabulary of the properties\<close>

text \<open>A response reports a failure when it begins with \<open>Error\<close>.\<close>

definition is_error :: "pystr \<Rightarrow> bool" where
  "is_error r = starts_with r (ustr ''Error'')"

text \<open>
  The three checks the validation loop makes on one operation against a content (lines
  102, 111 and 115-117 of MultiEdit.py), and the replacement it then performs (lines
  121-124), each as a function of one operation, so that "operation \<open>k\<close> is invalid
  against the content produced by operations \<open>0..k-1\<close>" can be written with \<open>fold\<close>.
\<close>

definition op_invalid :: "edit_operation \<Rightarrow> pystr \<Rightarrow> bool" where
  "op_invalid e c =
     (old_string e = new_string e \<or> \<not> str_in (old_string e) c \<or>
      (\<not> replace_all e \<and> 1 < str_count c (old_string e)))"

definition apply_op :: "edit_operation \<Rightarrow> pystr \<Rightarrow> pystr" where
  "apply_op e c =
     (if replace_all e then str_replace c (old_string e) (new_string e)
      else str_replace1 c (old_string e) (new_string e))"

text \<open>\<open>sub\<close> begins at exactly one position of \<open>s\<close>, overlapping occurrences
  counted each.\<close>

definition occurs_once :: "'a list \<Rightarrow> 'a list \<Rightarrow> bool" where
  "occurs_once sub s =
     (length (filter (\<lambda>i. starts_with (drop i s) sub) [0..<Suc (length s)]) = 1)"

text \<open>The file system after the whole text \<open>t\<close> has been written to the file \<open>f\<close> at
  \<open>p\<close>: the file holds \<open>t\<close> and the log has gained that one write.\<close>

definition written :: "fs \<Rightarrow> pystr \<Rightarrow> regfile \<Rightarrow> pystr \<Rightarrow> fs" where
  "written s p f t =
     s\<lparr>nodes := (nodes s)(p \<mapsto> File (f\<lparr>decoded := Some t\<rparr>)),
       events := events s @ [Wrote p t]\<rparr>"

text \<open>Concrete inputs: a readable and writable text file, a file system holding the root
  directory and one such file, one holding the root directory only, and an operation.\<close>

definition example_file :: "pystr \<Rightarrow> regfile" where
  "example_file t = \<lparr>can_read = True, can_write = True, decoded = Some t\<rparr>"

definition example_fs :: "pystr \<Rightarrow> pystr \<Rightarrow> fs" where
  "example_fs p t = \<lparr>nodes = [ustr ''/'' \<mapsto> Dir True, p \<mapsto> File (example_file t)], events = []\<rparr>"

definition root_fs :: fs where
  "root_fs = \<lparr>nodes = [ustr ''/'' \<mapsto> Dir True], events = []\<rparr>"

definition edit_op :: "pystr \<Rightarrow> pystr \<Rightarrow> bool \<Rightarrow> edit_operation" where
  "edit_op old new all = \<lparr>old_string = old, new_string = new, replace_all = all\<rparr>"

text \<open>A todo item, a whole-percent formatting, a notebook of two cells whose second has
  the id \<open>0\<close>, a notebook of one cell with the id \<open>cell-1\<close>, and library functions
  that read and print these notebooks.\<close>

definition todo :: "pystr \<Rightarrow> pystr \<Rightarrow> status \<Rightarrow> priority \<Rightarrow> todo_item" where
  "todo i c st pr = \<lparr>content = c, status = st, priority = pr, todo_id = i\<rparr>"

definition example_percent :: "nat \<Rightarrow> nat \<Rightarrow> pystr" where
  "example_percent c t = str_nat ((200 * c + t) div (2 * t))"

definition example_cells :: "json list" where
  "example_cells =
     [JObj [(ustr ''cell_type'', JStr (ustr ''markdown'')), (ustr ''id'', JStr (ustr ''x'')), (ustr ''source'', JArr []),
            (ustr ''metadata'', JObj [])],
      JObj [(ustr ''cell_type'', JStr (ustr ''markdown'')), (ustr ''id'', JStr (ustr ''0'')), (ustr ''source'', JArr []),
            (ustr ''metadata'', JObj [])]]"





section \<open>Properties of the string primitives\<close>

lemma ustr_simps [simp]: "ustr [] = []" "ustr (c # cs) = of_char c # ustr cs"
  by (simp_all add: ustr_def)

lemma starts_with_iff: "starts_with s p \<longleftrightarrow> (\<exists>r. s = p @ r)"
  by (induction s p rule: starts_with.induct) auto

lemma str_in_Nil: "str_in [] s"
  by (cases s) auto

lemma count_from_pos_in: "0 < count_from s sub \<Longrightarrow> str_in sub s"
  by (induction s sub rule: count_from.induct) (auto split: if_splits)

lemma str_count_pos_in: "0 < str_count s sub \<Longrightarrow> str_in sub s"
  by (auto simp: str_count_def str_in_Nil count_from_pos_in split: if_splits)

lemma str_in_iff: "str_in sub s \<longleftrightarrow> (\<exists>i\<le>length s. starts_with (drop i s) sub)"
proof (induction s)
  case Nil
  then show ?case by (cases sub) auto
next
  case (Cons c cs)
  show ?case
  proof
    assume "str_in sub (c # cs)"
    then consider "starts_with (c # cs) sub" | "str_in sub cs" by auto
    then show "\<exists>i\<le>length (c # cs). starts_with (drop i (c # cs)) sub"
    proof cases
      case 1
      then have "starts_with (drop 0 (c # cs)) sub" by simp
      then show ?thesis by blast
    next
      case 2
      with Cons.IH obtain i where "i \<le> length cs" "starts_with (drop i cs) sub" by blast
      then have "Suc i \<le> length (c # cs)" "starts_with (drop (Suc i) (c # cs)) sub" by simp_all
      then show ?thesis by blast
    qed
  next
    assume "\<exists>i\<le>length (c # cs). starts_with (drop i (c # cs)) sub"
    then obtain i where i: "i \<le> length (c # cs)" "starts_with (drop i (c # cs)) sub" by blast
    show "str_in sub (c # cs)"
    proof (cases i)
      case 0
      with i show ?thesis by simp
    next
      case (Suc j)
      with i have "j \<le> length cs" "starts_with (drop j cs) sub" by simp_all
      with Cons.IH show ?thesis by auto
    qed
  qed
qed

lemma count_from_absent: "\<not> str_in sub s \<Longrightarrow> count_from s sub = 0"
  using count_from_pos_in [of s sub] by auto

lemma replace_first_split:
  "str_in old s \<Longrightarrow> old \<noteq> [] \<Longrightarrow>
     \<exists>u v. s = u @ old @ v \<and> replace_first s old new = u @ new @ v"
proof (induction s)
  case Nil
  then show ?case by simp
next
  case (Cons c cs)
  show ?case
  proof (cases "starts_with (c # cs) old")
    case True
    then obtain r where r: "c # cs = old @ r" by (auto simp: starts_with_iff)
    with Cons.prems(2) have "drop (length old - 1) cs = r"
      by (cases old) auto
    moreover from True have "replace_first (c # cs) old new = new @ drop (length old - 1) cs"
      by simp
    ultimately have "replace_first (c # cs) old new = [] @ new @ r" by simp
    with r have "c # cs = [] @ old @ r \<and> replace_first (c # cs) old new = [] @ new @ r"
      by simp
    then show ?thesis by blast
  next
    case False
    with Cons.prems have "str_in old cs" by simp
    from Cons.IH [OF this Cons.prems(2)] obtain u v
      where "cs = u @ old @ v" "replace_first cs old new = u @ new @ v" by blast
    with False have "c # cs = (c # u) @ old @ v \<and>
        replace_first (c # cs) old new = (c # u) @ new @ v" by simp
    then show ?thesis by blast
  qed
qed

lemma str_replace1_split:
  assumes "str_count F s = 1"
  shows "\<exists>u v. F = u @ s @ v \<and> str_replace1 F s t = u @ t @ v"
proof (cases "s = []")
  case True
  with assms have "F = []" by (simp add: str_count_def)
  with True have "F = [] @ s @ [] \<and> str_replace1 F s t = [] @ t @ []"
    by (simp add: str_replace1_def)
  then show ?thesis by blast
next
  case False
  from assms have "str_in s F" by (intro str_count_pos_in) simp
  from replace_first_split [OF this False, of t] False show ?thesis
    by (simp add: str_replace1_def)
qed

lemma replace_first_at_only:
  "t \<noteq> [] \<Longrightarrow> \<forall>i\<le>length (u @ t @ v). starts_with (drop i (u @ t @ v)) t \<longrightarrow> i = length u \<Longrightarrow>
     replace_first (u @ t @ v) t s = u @ s @ v"
proof (induction u)
  case Nil
  then obtain a ts where t: "t = a # ts" by (cases t) auto
  then show ?case by (simp add: starts_with_iff)
next
  case (Cons c u)
  have no: "\<not> starts_with ((c # u) @ t @ v) t"
  proof
    assume "starts_with ((c # u) @ t @ v) t"
    then have "starts_with (drop 0 ((c # u) @ t @ v)) t" by simp
    with Cons.prems(2) have "0 = length (c # u)" by blast
    then show False by simp
  qed
  have "\<forall>i\<le>length (u @ t @ v). starts_with (drop i (u @ t @ v)) t \<longrightarrow> i = length u"
  proof (intro allI impI)
    fix i assume "i \<le> length (u @ t @ v)" "starts_with (drop i (u @ t @ v)) t"
    then have "Suc i \<le> length ((c # u) @ t @ v)"
      "starts_with (drop (Suc i) ((c # u) @ t @ v)) t" by simp_all
    with Cons.prems(2) have "Suc i = length (c # u)" by blast
    then show "i = length u" by simp
  qed
  from Cons.IH [OF Cons.prems(1) this] no show ?case by simp
qed

lemma count_from_at_only:
  "t \<noteq> [] \<Longrightarrow> \<forall>i\<le>length R. starts_with (drop i R) t \<longrightarrow> i = n \<Longrightarrow> count_from R t \<le> 1"
proof (induction R arbitrary: n)
  case Nil
  then show ?case by simp
next
  case (Cons c cs)
  show ?case
  proof (cases "starts_with (c # cs) t")
    case True
    then have "starts_with (drop 0 (c # cs)) t" by simp
    with Cons.prems(2) have n: "n = 0" by force
    have "\<not> str_in t (drop (length t - 1) cs)"
    proof
      assume "str_in t (drop (length t - 1) cs)"
      then obtain j where j: "j \<le> length (drop (length t - 1) cs)"
        "starts_with (drop j (drop (length t - 1) cs)) t"
        by (auto simp: str_in_iff)
      have d: "drop j (drop (length t - 1) cs) = drop (Suc (j + (length t - 1))) (c # cs)"
        by (simp add: add.commute)
      from True obtain r where "c # cs = t @ r" by (auto simp: starts_with_iff)
      then have "length (c # cs) = length t + length r" by (metis length_append)
      then have "length t \<le> length (c # cs)" by linarith
      with j(1) have "Suc (j + (length t - 1)) \<le> length (c # cs)" by simp
      with j(2) d Cons.prems(2) have "Suc (j + (length t - 1)) = n" by metis
      with n show False by simp
    qed
    with True show ?thesis by (simp add: count_from_absent)
  next
    case False
    have "\<forall>i\<le>length cs. starts_with (drop i cs) t \<longrightarrow> i = n - 1"
    proof (intro allI impI)
      fix i assume "i \<le> length cs" "starts_with (drop i cs) t"
      then have "Suc i \<le> length (c # cs)" "starts_with (drop (Suc i) (c # cs)) t" by simp_all
      with Cons.prems(2) have "Suc i = n" by blast
      then show "i = n - 1" by simp
    qed
    from Cons.IH [OF Cons.prems(1) this] False show ?thesis by simp
  qed
qed

lemma occurs_once_only:
  assumes "occurs_once t R" and "k \<le> length R" and "starts_with (drop k R) t"
  shows "\<forall>i\<le>length R. starts_with (drop i R) t \<longrightarrow> i = k"
proof -
  define ps where "ps = filter (\<lambda>i. starts_with (drop i R) t) [0..<Suc (length R)]"
  from assms(1) have "length ps = 1" by (simp add: occurs_once_def ps_def)
  then obtain y where y: "ps = [y]" by (cases ps) auto
  have mem: "i \<in> set ps" if "i \<le> length R" and "starts_with (drop i R) t" for i
    using that unfolding ps_def by (simp del: upt_Suc)
  from mem [OF assms(2,3)] y have "k = y" by simp
  moreover have "i = y" if "i \<le> length R" and "starts_with (drop i R) t" for i
    using mem [OF that] y by simp
  ultimately show ?thesis by blast
qed

lemma round_trip_core:
  assumes "str_count F s = 1" and "occurs_once t (str_replace1 F s t)"
  shows "str_in t (str_replace1 F s t) \<and> str_count (str_replace1 F s t) t \<le> 1 \<and>
         str_replace1 (str_replace1 F s t) t s = F"
proof -
  from str_replace1_split [OF assms(1), of t] obtain u v
    where F: "F = u @ s @ v" and R: "str_replace1 F s t = u @ t @ v" by blast
  show ?thesis
  proof (cases "t = []")
    case True
    with assms(2) R have uv: "u = [] \<and> v = []" by (simp add: occurs_once_def)
    with R True have R0: "str_replace1 F s t = []" by simp
    from uv F have F0: "F = s" by simp
    show ?thesis unfolding R0 using True F0
      by (simp add: str_count_def str_replace1_def)
  next
    case False
    have at: "starts_with (drop (length u) (u @ t @ v)) t" by (simp add: starts_with_iff)
    have "length u \<le> length (u @ t @ v)" by simp
    from occurs_once_only [OF assms(2) [unfolded R] this at]
    have only: "\<forall>i\<le>length (u @ t @ v). starts_with (drop i (u @ t @ v)) t \<longrightarrow> i = length u" .
    have "str_in t (u @ t @ v)"
      using at by (auto simp: str_in_iff intro!: exI [of _ "length u"])
    moreover from count_from_at_only [OF False only] False
    have "str_count (u @ t @ v) t \<le> 1" by (simp add: str_count_def)
    moreover from replace_first_at_only [OF False only, of s] False
    have "str_replace1 (u @ t @ v) t s = u @ s @ v" by (simp add: str_replace1_def)
    ultimately show ?thesis using F R by simp
  qed
qed

section \<open>Properties of reading and writing\<close>

lemma universal_newlines_plain: "13 \<notin> set t \<Longrightarrow> universal_newlines t = t"
  by (induction t rule: universal_newlines.induct) auto

lemma encodable_append [simp]: "encodable (a @ b) \<longleftrightarrow> encodable a \<and> encodable b"
  by (simp add: encodable_def)

lemma write_text_encodable:
  "nodes s p = Some (File f) \<Longrightarrow> can_write f \<Longrightarrow> encodable t \<Longrightarrow>
     write_text s p t =
       Inr (s\<lparr>nodes := (nodes s)(p \<mapsto> File (f\<lparr>decoded := Some t\<rparr>)),
              events := events s @ [Wrote p t]\<rparr>)"
  by (simp add: write_text_def write_chunks_def put_chunks_def)

lemma write_text_unencodable:
  "nodes s p = Some (File f) \<Longrightarrow> can_write f \<Longrightarrow> \<not> encodable t \<Longrightarrow>
     write_text s p t =
       Inl (encode_error t,
            s\<lparr>nodes := (nodes s)(p \<mapsto> File (f\<lparr>decoded := Some []\<rparr>)),
              events := events s @ [Broken p []]\<rparr>)"
  by (simp add: write_text_def write_chunks_def put_chunks_def)

lemma str_replace1_set:
  assumes "str_count F s = 1"
  shows "set (str_replace1 F s t) \<subseteq> set F \<union> set t"
proof -
  from str_replace1_split [OF assms, of t] obtain u v
    where "F = u @ s @ v" "str_replace1 F s t = u @ t @ v" by blast
  then show ?thesis by auto
qed

section \<open>Properties of Edit\<close>



lemma hello_read:
  "universal_newlines (ustr ''Hello World\<newline>This is a test file\<newline>Hello World again'') =
   ustr ''Hello World\<newline>This is a test file\<newline>Hello World again''"
  by (rule universal_newlines_plain) simp

lemma hello_count:
  "str_count (ustr ''Hello World\<newline>This is a test file\<newline>Hello World again'')
     (ustr ''Hello World'') = 2"
  by (simp add: str_count_def)

lemma hello_replace:
  "str_replace (ustr ''Hello World\<newline>This is a test file\<newline>Hello World again'')
     (ustr ''Hello World'') (ustr ''Hi Universe'') =
   ustr ''Hi Universe\<newline>This is a test file\<newline>Hi Universe again''"
  by (simp add: str_replace_def)

lemma hi_encodable:
  "encodable (ustr ''Hi Universe\<newline>This is a test file\<newline>Hi Universe again'')"
  by (simp add: encodable_def is_surrogate_def)

text \<open>
  C9.  On a readable, writable file with the content
  \<open>"Hello World\nThis is a test file\nHello World again"\<close>, the edit of \<open>"Hello World"\<close>
  into \<open>"Hi Universe"\<close> with \<open>replace_all\<close> true succeeds, reports two occurrences
  replaced and leaves the content \<open>"Hi Universe\nThis is a test file\nHi Universe again"\<close>,
  written once.
\<close>

theorem edit_replace_all_scenario:
  assumes "isabs p" and "nodes s p = Some (File f)" and "can_read f" and "can_write f"
    and "decoded f =
           Some (ustr ''Hello World\<newline>This is a test file\<newline>Hello World again'')"
  shows "Edit_run s p (ustr ''Hello World'') (ustr ''Hi Universe'') True =
           (ustr ''Successfully replaced 2 occurrences of the specified text in '' @ quoted p,
            s\<lparr>nodes := (nodes s)(p \<mapsto> File (f\<lparr>decoded :=
                   Some (ustr ''Hi Universe\<newline>This is a test file\<newline>Hi Universe again'')\<rparr>)),
              events := events s @
                [Wrote p (ustr ''Hi Universe\<newline>This is a test file\<newline>Hi Universe again'')]\<rparr>)"
proof -
  have w: "write_text s p (ustr ''Hi Universe\<newline>This is a test file\<newline>Hi Universe again'') =
      Inr (s\<lparr>nodes := (nodes s)(p \<mapsto> File (f\<lparr>decoded :=
                   Some (ustr ''Hi Universe\<newline>This is a test file\<newline>Hi Universe again'')\<rparr>)),
              events := events s @
                [Wrote p (ustr ''Hi Universe\<newline>This is a test file\<newline>Hi Universe again'')]\<rparr>)"
    using assms(2,4) hi_encodable by (rule write_text_encodable)
  have r: "read_text s p =
      Inr (ustr ''Hello World\<newline>This is a test file\<newline>Hello World again'')"
    using assms(2,3,5) hello_read by (simp add: read_text_def)
  have i: "str_in (ustr ''Hello World'')
      (ustr ''Hello World\<newline>This is a test file\<newline>Hello World again'')"
    by simp
  have n: "str_nat 2 = ustr ''2''" "(2::nat) \<noteq> 1" "ustr ''Hello World'' \<noteq> ustr ''Hi Universe''"
    by (simp_all add: str_nat.simps)
  show ?thesis
    unfolding Edit_run_def Edit_try_def r
    using assms(1,2) i n
    apply (simp add: path_exists_def isfile_def hello_count hello_replace w Let_def
        del: ustr_simps)
    apply simp
    done
qed

theorem edit_replace_all_scenario_witness:
  "Edit_run (example_fs (ustr ''/t.txt'')
       (ustr ''Hello World\<newline>This is a test file\<newline>Hello World again''))
     (ustr ''/t.txt'') (ustr ''Hello World'') (ustr ''Hi Universe'') True =
   (ustr ''Successfully replaced 2 occurrences of the specified text in '' @
    quoted (ustr ''/t.txt''),
    \<lparr>nodes = [ustr ''/'' \<mapsto> Dir True, ustr ''/t.txt'' \<mapsto>
        File (example_file
          (ustr ''Hi Universe\<newline>This is a test file\<newline>Hi Universe again''))],
      events = [Wrote (ustr ''/t.txt'')
          (ustr ''Hi Universe\<newline>This is a test file\<newline>Hi Universe again'')]\<rparr>)"
  using edit_replace_all_scenario [of "ustr ''/t.txt''"
      "example_fs (ustr ''/t.txt'')
         (ustr ''Hello World\<newline>This is a test file\<newline>Hello World again'')"
      "example_file (ustr ''Hello World\<newline>This is a test file\<newline>Hello World again'')"]
  by (simp add: example_fs_def example_file_def isabs_def quoted_def)

text \<open>
  C5 (as amended).  For a readable, writable text file whose content \<open>F\<close> has no
  carriage return and no lone surrogate, and strings \<open>s \<noteq> t\<close>, where \<open>s\<close> occurs
  exactly once in \<open>F\<close> (as \<open>str.count\<close> counts), \<open>t\<close> has no carriage return and
  no lone surrogate either, and \<open>t\<close> begins at exactly one position of the content
  produced by the first edit: the edit of \<open>s\<close> into \<open>t\<close> succeeds, the edit of \<open>t\<close>
  back into \<open>s\<close> succeeds, and the file system holds the nodes it held before, the
  file with content \<open>F\<close> again, after the two writes.  A count of one for \<open>t\<close> would
  not do: \<open>aa\<close> has count one in \<open>aaa\<close>, where the replacement takes the first of two
  overlapping occurrences.  A carriage return would not come back: reading turns it into
  a line feed.
\<close>

theorem edit_round_trip:
  assumes "isabs p" and "nodes fs0 p = Some (File f)" and "can_read f" and "can_write f"
    and "decoded f = Some F" and "13 \<notin> set F" and "encodable F"
    and "13 \<notin> set t" and "encodable t"
    and "s \<noteq> t" and "str_count F s = 1"
    and "occurs_once t (str_replace1 F s t)"
  shows "fst (Edit_run fs0 p s t False) =
           ustr ''Successfully replaced 1 occurrence of the specified text in '' @ quoted p \<and>
         fst (Edit_run (snd (Edit_run fs0 p s t False)) p t s False) =
           ustr ''Successfully replaced 1 occurrence of the specified text in '' @ quoted p \<and>
         nodes (snd (Edit_run (snd (Edit_run fs0 p s t False)) p t s False)) = nodes fs0 \<and>
         events (snd (Edit_run (snd (Edit_run fs0 p s t False)) p t s False)) =
           events fs0 @ [Wrote p (str_replace1 F s t), Wrote p F]"
proof -
  let ?R = "str_replace1 F s t"
  let ?f1 = "f\<lparr>decoded := Some ?R\<rparr>"
  let ?fs1 = "fs0\<lparr>nodes := (nodes fs0)(p \<mapsto> File ?f1),
                    events := events fs0 @ [Wrote p ?R]\<rparr>"
  let ?fs2 = "?fs1\<lparr>nodes := (nodes ?fs1)(p \<mapsto> File (?f1\<lparr>decoded := Some F\<rparr>)),
                     events := events ?fs1 @ [Wrote p F]\<rparr>"
  from assms(11) have in1: "str_in s F" by (intro str_count_pos_in) simp
  from round_trip_core [OF assms(11,12)]
  have in2: "str_in t ?R" and c2: "\<not> 1 < str_count ?R t" and rt: "str_replace1 ?R t s = F"
    by auto
  from str_replace1_set [OF assms(11), of t] assms(6,8) have crR: "13 \<notin> set ?R" by auto
  from str_replace1_set [OF assms(11), of t] assms(7,9) have encR: "encodable ?R"
    by (auto simp: encodable_def list_all_iff)
  from assms(2,3,5) universal_newlines_plain [OF assms(6)]
  have r1: "read_text fs0 p = Inr F" by (simp add: read_text_def)
  from write_text_encodable [OF assms(2,4) encR]
  have w1: "write_text fs0 p ?R = Inr ?fs1" .
  have n1: "nodes ?fs1 p = Some (File ?f1)" by simp
  from assms(3) universal_newlines_plain [OF crR]
  have r2: "read_text ?fs1 p = Inr ?R" by (simp add: read_text_def)
  from assms(4) have "can_write ?f1" by simp
  from write_text_encodable [OF n1 this assms(7)]
  have w2: "write_text ?fs1 p F = Inr ?fs2" .
  from assms(1,2,10) in1 assms(11) have first: "Edit_run fs0 p s t False =
      (ustr ''Successfully replaced 1 occurrence of the specified text in '' @ quoted p, ?fs1)"
    unfolding Edit_run_def Edit_try_def r1
    by (simp add: path_exists_def isfile_def w1 Let_def del: ustr_simps)
  from assms(1,10) in2 c2 have second: "Edit_run ?fs1 p t s False =
      (ustr ''Successfully replaced 1 occurrence of the specified text in '' @ quoted p, ?fs2)"
    unfolding Edit_run_def Edit_try_def r2
    by (simp add: path_exists_def isfile_def rt w2 Let_def del: ustr_simps)
  from assms(5) have "?f1\<lparr>decoded := Some F\<rparr> = f" by simp
  with assms(2) have "(nodes ?fs1)(p \<mapsto> File (?f1\<lparr>decoded := Some F\<rparr>)) = nodes fs0"
    by (auto simp: fun_eq_iff)
  with first second show ?thesis by simp
qed

theorem edit_round_trip_witness:
  "str_count (ustr ''abc'') (ustr ''b'') = 1 \<and>
   occurs_once (ustr ''xy'') (str_replace1 (ustr ''abc'') (ustr ''b'') (ustr ''xy'')) \<and>
   nodes (snd (Edit_run (snd (Edit_run (example_fs (ustr ''/t.txt'') (ustr ''abc''))
                                (ustr ''/t.txt'') (ustr ''b'') (ustr ''xy'') False))
                 (ustr ''/t.txt'') (ustr ''xy'') (ustr ''b'') False)) =
     nodes (example_fs (ustr ''/t.txt'') (ustr ''abc'')) \<and>
   events (snd (Edit_run (snd (Edit_run (example_fs (ustr ''/t.txt'') (ustr ''abc''))
                                 (ustr ''/t.txt'') (ustr ''b'') (ustr ''xy'') False))
                  (ustr ''/t.txt'') (ustr ''xy'') (ustr ''b'') False)) =
     [Wrote (ustr ''/t.txt'') (ustr ''axyc''), Wrote (ustr ''/t.txt'') (ustr ''abc'')]"
proof -
  have c: "str_count (ustr ''abc'') (ustr ''b'') = 1"
    by (simp add: str_count_def)
  have r: "str_replace1 (ustr ''abc'') (ustr ''b'') (ustr ''xy'') = ustr ''axyc''"
    by (simp add: str_replace1_def)
  have o: "occurs_once (ustr ''xy'') (str_replace1 (ustr ''abc'') (ustr ''b'') (ustr ''xy''))"
    unfolding r by (simp add: occurs_once_def)
  have env: "isabs (ustr ''/t.txt'')"
    "nodes (example_fs (ustr ''/t.txt'') (ustr ''abc'')) (ustr ''/t.txt'') =
       Some (File (example_file (ustr ''abc'')))"
    "can_read (example_file (ustr ''abc''))" "can_write (example_file (ustr ''abc''))"
    "decoded (example_file (ustr ''abc'')) = Some (ustr ''abc'')"
    "13 \<notin> set (ustr ''abc'')" "encodable (ustr ''abc'')"
    "13 \<notin> set (ustr ''xy'')" "encodable (ustr ''xy'')"
    "ustr ''b'' \<noteq> ustr ''xy''"
    by (simp_all add: isabs_def example_fs_def example_file_def encodable_def is_surrogate_def)
  from edit_round_trip [OF env c o] c o r show ?thesis
    by (simp add: example_fs_def)
qed

text \<open>
  C5 as stated fails: \<open>a\<close> and \<open>b\<close> differ and each occurs exactly once in \<open>ab\<close>;
  the first edit gives \<open>bb\<close>, the edit back is rejected because \<open>b\<close> now appears
  twice, and the file keeps the content \<open>bb\<close>.
\<close>

theorem edit_round_trip_counterexample:
  "ustr ''a'' \<noteq> ustr ''b'' \<and> str_count (ustr ''ab'') (ustr ''a'') = 1 \<and>
   str_count (ustr ''ab'') (ustr ''b'') = 1 \<and>
   occurs_once (ustr ''a'') (ustr ''ab'') \<and> occurs_once (ustr ''b'') (ustr ''ab'') \<and>
   fst (Edit_run (snd (Edit_run (example_fs (ustr ''/t.txt'') (ustr ''ab'')) (ustr ''/t.txt'')
                         (ustr ''a'') (ustr ''b'') False))
          (ustr ''/t.txt'') (ustr ''b'') (ustr ''a'') False) =
     ustr ''Error: String '' @ quoted (ustr ''b'') @
     ustr '' appears 2 times in the file. Either provide a larger string with more context to make it unique, or use replace_all=True to change all instances.'' \<and>
   nodes (snd (Edit_run (snd (Edit_run (example_fs (ustr ''/t.txt'') (ustr ''ab''))
                                (ustr ''/t.txt'') (ustr ''a'') (ustr ''b'') False))
          (ustr ''/t.txt'') (ustr ''b'') (ustr ''a'') False)) (ustr ''/t.txt'') =
     Some (File (example_file (ustr ''bb'')))"
  by (simp add: Edit_run_def Edit_try_def path_exists_def isfile_def read_text_def
      write_text_def write_chunks_def put_chunks_def encodable_def is_surrogate_def
      Let_def isabs_def example_fs_def example_file_def str_count_def
      str_replace1_def occurs_once_def str_nat.simps)

section \<open>Properties of MultiEdit\<close>

lemma validate_apply_same:
  "validate_edits fe i es c = Inr v \<Longrightarrow> fst (apply_edits fe i es c rs) = v"
  by (induction es arbitrary: i c rs) (auto split: if_splits)

lemma validate_existing_Inr:
  "validate_edits True i es c = Inr v \<Longrightarrow>
     v = fold apply_op es c \<and>
     (\<forall>k<length es. \<not> op_invalid (es ! k) (fold apply_op (take k es) c))"
proof (induction es arbitrary: i c)
  case Nil
  then show ?case by simp
next
  case (Cons e es)
  from Cons.prems have ok: "\<not> op_invalid e c"
    and rest: "validate_edits True (i + 1) es (apply_op e c) = Inr v"
    by (auto simp: op_invalid_def apply_op_def split: if_splits)
  from Cons.IH [OF rest] ok show ?case
    by (simp add: All_less_Suc2)
qed

lemma validate_existing_Inl:
  "validate_edits True i es c = Inl m \<Longrightarrow>
     is_error m \<and> (\<exists>k<length es. op_invalid (es ! k) (fold apply_op (take k es) c))"
proof (induction es arbitrary: i c)
  case Nil
  then show ?case by simp
next
  case (Cons e es)
  show ?case
  proof (cases "op_invalid e c")
    case True
    with Cons.prems have "is_error m"
      by (auto simp: op_invalid_def is_error_def split: if_splits)
    with True show ?thesis by (auto simp: Ex_less_Suc2)
  next
    case False
    with Cons.prems have "validate_edits True (i + 1) es (apply_op e c) = Inl m"
      by (auto simp: op_invalid_def apply_op_def split: if_splits)
    from Cons.IH [OF this] show ?thesis
      by (auto simp: Ex_less_Suc2)
  qed
qed

lemma apply_existing: "fst (apply_edits True i es c rs) = fold apply_op es c"
  by (induction es arbitrary: i c rs) (auto simp: apply_op_def)

lemma makedirs_existing: "nodes s d = Some (Dir w) \<Longrightarrow> makedirs s d = Inr s"
  by (simp add: makedirs.simps)

lemma success_not_error: "\<not> is_error (join sep ((83 # t) # rs))"
  by (cases rs) (simp_all add: is_error_def)

text \<open>
  What holds of a multi-edit request on an existing file (readable text at an absolute
  path, at least one operation), with \<open>F\<close> the content as read.  If some operation
  \<open>k\<close> is invalid against the content produced by operations \<open>0..k-1\<close>, the run
  returns an error and the file system, log included, is the one before the call.  If
  every operation validates, the file is writable in its existing directory and the final
  content encodes as UTF-8, the run succeeds, the file holds the content with all
  operations applied, and the log gains exactly one entry: the write of that content.
\<close>

lemma multiedit_atomic_when_encodable:
  assumes "isabs p" and "edits \<noteq> []" and "nodes s p = Some (File f)" and "can_read f"
    and "decoded f = Some D" and "F = universal_newlines D"
  shows "((\<exists>k<length edits. op_invalid (edits ! k) (fold apply_op (take k edits) F)) \<longrightarrow>
            is_error (fst (MultiEdit_run s p edits)) \<and> snd (MultiEdit_run s p edits) = s) \<and>
         ((\<forall>k<length edits. \<not> op_invalid (edits ! k) (fold apply_op (take k edits) F)) \<and>
             can_write f \<and> nodes s (dirname p) = Some (Dir w) \<and>
             encodable (fold apply_op edits F) \<longrightarrow>
            \<not> is_error (fst (MultiEdit_run s p edits)) \<and>
            snd (MultiEdit_run s p edits) =
              s\<lparr>nodes := (nodes s)(p \<mapsto> File (f\<lparr>decoded := Some (fold apply_op edits F)\<rparr>)),
                events := events s @ [Wrote p (fold apply_op edits F)]\<rparr>)"
proof (cases "validate_edits True 0 edits F")
  case (Inl m)
  from validate_existing_Inl [OF Inl] have err: "is_error m"
    and bad: "\<exists>k<length edits. op_invalid (edits ! k) (fold apply_op (take k edits) F)"
    by simp_all
  from assms Inl have "MultiEdit_run s p edits = (m, s)"
    by (simp add: MultiEdit_run_def MultiEdit_try_def path_exists_def isfile_def read_text_def)
  with err bad show ?thesis by auto
next
  case (Inr v)
  from validate_existing_Inr [OF Inr] have v: "v = fold apply_op edits F"
    and good: "\<forall>k<length edits. \<not> op_invalid (edits ! k) (fold apply_op (take k edits) F)"
    by simp_all
  obtain cc rs where ap: "apply_edits True 0 edits F [] = (cc, rs)"
    by (cases "apply_edits True 0 edits F []")
  with apply_existing [of 0 edits F "[]"] have cc: "cc = fold apply_op edits F" by simp
  {
    assume w: "can_write f" and d: "nodes s (dirname p) = Some (Dir w)"
      and e: "encodable (fold apply_op edits F)"
    from assms Inr ap makedirs_existing [OF d]
      write_text_encodable [OF assms(3) w e [folded cc]]
    have "MultiEdit_run s p edits =
            (join (ustr ''\<newline>'') ((ustr ''Successfully applied '' @ str_nat (length edits) @
                  ustr '' edits to '' @ quoted p @ ustr '':'') # rs),
             s\<lparr>nodes := (nodes s)(p \<mapsto> File (f\<lparr>decoded := Some cc\<rparr>)),
               events := events s @ [Wrote p cc]\<rparr>)"
      by (simp add: MultiEdit_run_def MultiEdit_try_def path_exists_def isfile_def
          read_text_def)
    with cc have "\<not> is_error (fst (MultiEdit_run s p edits)) \<and>
            snd (MultiEdit_run s p edits) =
              s\<lparr>nodes := (nodes s)(p \<mapsto> File (f\<lparr>decoded := Some (fold apply_op edits F)\<rparr>)),
                events := events s @ [Wrote p (fold apply_op edits F)]\<rparr>"
      by (simp add: success_not_error)
  }
  with good show ?thesis by blast
qed

text \<open>
  C1.  The claim fails where the final content does not encode.  On the file \<open>/t.txt\<close>
  with content \<open>abc\<close> and the one operation that replaces \<open>b\<close> by the lone surrogate
  U+D800, the operation validates (the validation pass returns the content
  \<open>a\ud800c\<close>), yet the run answers \<open>Error applying edits to file ...\<close>: opening the
  file for writing has emptied it and the write has raised.  The file is left with no
  content and nothing is written: neither all operations applied, nor none.
\<close>

theorem multiedit_unencodable_empties_file:
  "validate_edits True 0 [edit_op (ustr ''b'') [55296] False] (ustr ''abc'') =
     Inr [97, 55296, 99] \<and>
   MultiEdit_run (example_fs (ustr ''/t.txt'') (ustr ''abc'')) (ustr ''/t.txt'')
     [edit_op (ustr ''b'') [55296] False] =
     (ustr ''Error applying edits to file '' @ quoted (ustr ''/t.txt'') @ ustr '': '' @
      quoted (ustr ''utf-8'') @ ustr '' codec can't encode character '' @
      quoted ([92, 117] @ ustr ''d800'') @
      ustr '' in position 1: surrogates not allowed'',
      \<lparr>nodes = [ustr ''/'' \<mapsto> Dir True, ustr ''/t.txt'' \<mapsto> File (example_file [])],
        events = [Broken (ustr ''/t.txt'') []]\<rparr>)"
proof -
  let ?s = "example_fs (ustr ''/t.txt'') (ustr ''abc'')"
  let ?edits = "[edit_op (ustr ''b'') [55296] False]"
  have v: "validate_edits True 0 ?edits (ustr ''abc'') = Inr [97, 55296, 99]"
    by (simp add: edit_op_def str_count_def str_replace1_def)
  have a: "apply_edits True 0 ?edits (ustr ''abc'') [] =
     ([97, 55296, 99], [ustr ''Edit 1: Replaced 1 occurrence''])"
    by (simp add: edit_op_def str_replace1_def str_nat.simps)
  have d: "dirname (ustr ''/t.txt'') = [47]"
    by (simp add: dirname_def)
  have e: "encode_error [97, 55296, 99] =
     UnicodeEncodeError (quoted (ustr ''utf-8'') @ ustr '' codec can't encode character '' @
      quoted ([92, 117] @ ustr ''d800'') @
      ustr '' in position 1: surrogates not allowed'')"
    by (simp add: encode_error_def is_surrogate_def hex4_def quoted_def str_nat.simps Let_def)
  have w: "write_text ?s (ustr ''/t.txt'') [97, 55296, 99] =
     Inl (encode_error [97, 55296, 99],
      \<lparr>nodes = [ustr ''/'' \<mapsto> Dir True, ustr ''/t.txt'' \<mapsto> File (example_file [])],
        events = [Broken (ustr ''/t.txt'') []]\<rparr>)"
    by (simp add: write_text_def write_chunks_def put_chunks_def example_fs_def
        example_file_def encodable_def is_surrogate_def)
  have m: "makedirs ?s [47] = Inr ?s"
    by (simp add: makedirs.simps example_fs_def)
  have r: "read_text ?s (ustr ''/t.txt'') = Inr (ustr ''abc'')"
    by (simp add: read_text_def example_fs_def example_file_def)
  have x: "path_exists ?s (ustr ''/t.txt'')" "isfile ?s (ustr ''/t.txt'')"
    "isabs (ustr ''/t.txt'')" "?edits \<noteq> []"
    by (simp_all add: path_exists_def isfile_def isabs_def example_fs_def)
  have "MultiEdit_run ?s (ustr ''/t.txt'') ?edits =
     (ustr ''Error applying edits to file '' @ quoted (ustr ''/t.txt'') @ ustr '': '' @
      quoted (ustr ''utf-8'') @ ustr '' codec can't encode character '' @
      quoted ([92, 117] @ ustr ''d800'') @
      ustr '' in position 1: surrogates not allowed'',
      \<lparr>nodes = [ustr ''/'' \<mapsto> Dir True, ustr ''/t.txt'' \<mapsto> File (example_file [])],
        events = [Broken (ustr ''/t.txt'') []]\<rparr>)"
    unfolding MultiEdit_run_def MultiEdit_try_def
    by (simp add: x r v a d m w e
        del: ustr_simps validate_edits.simps apply_edits.simps)
  with v show ?thesis by blast
qed










text \<open>
  C3 (as amended).  In new-file mode (the target does not exist and the first operation's
  \<open>old_string\<close> is empty), the first operation is not checked for absence or uniqueness
  and its \<open>new_string\<close> becomes the initial content, on which the remaining operations
  are validated and applied, provided that \<open>new_string\<close> is not empty too.  The check
  that \<open>old_string\<close> and \<open>new_string\<close> differ comes first in the loop and is not
  skipped: with both empty the request is rejected as \<open>Error in edit 1\<close> and nothing is
  written.
\<close>

theorem new_file_first_edit:
  assumes "isabs p" and "\<not> path_exists s p" and "old_string e = []"
  shows "(new_string e \<noteq> [] \<and> validate_edits False 1 rest (new_string e) = Inr v \<and>
            makedirs s (dirname p) = Inr s1 \<and> write_text s1 p v = Inr s2 \<longrightarrow>
            \<not> is_error (fst (MultiEdit_run s p (e # rest))) \<and>
            snd (MultiEdit_run s p (e # rest)) = s2) \<and>
         (new_string e = [] \<longrightarrow>
            MultiEdit_run s p (e # rest) =
              (ustr ''Error in edit 1: old_string and new_string must be different'', s))"
proof (cases "new_string e = []")
  case True
  with assms show ?thesis
    by (simp add: MultiEdit_run_def MultiEdit_try_def str_nat.simps)
next
  case False
  {
    assume val: "validate_edits False 1 rest (new_string e) = Inr v"
      and md: "makedirs s (dirname p) = Inr s1" and wr: "write_text s1 p v = Inr s2"
    obtain cc rs where ap: "apply_edits False 1 rest (new_string e)
        [ustr ''Edit 1: Created new file with content''] = (cc, rs)"
      by (cases "apply_edits False 1 rest (new_string e) [ustr ''Edit 1: Created new file with content'']")
    with validate_apply_same [OF val, of "[ustr ''Edit 1: Created new file with content'']"]
    have cc: "cc = v" by simp
    from assms False val md wr ap cc
    have "MultiEdit_run s p (e # rest) =
            (join (ustr ''\<newline>'') ((ustr ''Successfully applied '' @ str_nat (Suc (length rest)) @
                  (ustr '' edits to '') @ quoted p @ ustr '':'') # rs), s2)"
      by (simp add: MultiEdit_run_def MultiEdit_try_def str_nat.simps)
    then have "\<not> is_error (fst (MultiEdit_run s p (e # rest))) \<and>
            snd (MultiEdit_run s p (e # rest)) = s2"
      by (simp add: success_not_error)
  }
  with False show ?thesis by blast
qed

theorem new_file_first_edit_witness:
  "snd (MultiEdit_run root_fs (ustr ''/n.txt'') [edit_op [] (ustr ''ab'') False, edit_op (ustr ''b'') (ustr ''c'') False]) =
     \<lparr>nodes = [ustr ''/'' \<mapsto> Dir True, ustr ''/n.txt'' \<mapsto> File (example_file (ustr ''ac''))],
       events = [Wrote (ustr ''/n.txt'') (ustr ''ac'')]\<rparr> \<and>
   MultiEdit_run root_fs (ustr ''/n.txt'') [edit_op [] [] False, edit_op (ustr ''b'') (ustr ''c'') False] =
     (ustr ''Error in edit 1: old_string and new_string must be different'', root_fs)"
proof -
  let ?s2 = "\<lparr>nodes = [ustr ''/'' \<mapsto> Dir True, ustr ''/n.txt'' \<mapsto> File (example_file (ustr ''ac''))],
       events = [Wrote (ustr ''/n.txt'') (ustr ''ac'')]\<rparr>"
  have env: "isabs (ustr ''/n.txt'')" "\<not> path_exists root_fs (ustr ''/n.txt'')"
    by (simp_all add: isabs_def path_exists_def root_fs_def)
  have d0: "dirname (ustr ''/n.txt'') = ustr ''/''"
    by (simp add: dirname_def)
  note d = d0 [simplified]
  have v: "validate_edits False 1 [edit_op (ustr ''b'') (ustr ''c'') False] (ustr ''ab'') = Inr (ustr ''ac'')"
    by (simp add: edit_op_def str_count_def str_replace1_def)
  have m: "makedirs root_fs (dirname (ustr ''/n.txt'')) = Inr root_fs"
    by (simp add: d makedirs.simps root_fs_def)
  have w: "write_text root_fs (ustr ''/n.txt'') (ustr ''ac'') = Inr ?s2"
    by (simp add: write_text_def write_chunks_def put_chunks_def encodable_def
        is_surrogate_def d root_fs_def example_file_def)
  from new_file_first_edit [OF env, of "edit_op [] (ustr ''ab'') False" "[edit_op (ustr ''b'') (ustr ''c'') False]"
         "(ustr ''ac'')" root_fs ?s2] v m w
       new_file_first_edit [OF env, of "edit_op [] [] False" "[edit_op (ustr ''b'') (ustr ''c'') False]"]
  show ?thesis
    by (simp add: edit_op_def)
qed

text \<open>
  C3 as stated fails: on a file system without the target, the single operation with
  both strings empty is rejected on the ground that the strings are equal.
\<close>

theorem new_file_same_strings_counterexample:
  "MultiEdit_run \<lparr>nodes = [ustr ''/'' \<mapsto> Dir True], events = []\<rparr> (ustr ''/new.txt'')
     [\<lparr>old_string = [], new_string = [], replace_all = False\<rparr>] =
   (ustr ''Error in edit 1: old_string and new_string must be different'',
    \<lparr>nodes = [ustr ''/'' \<mapsto> Dir True], events = []\<rparr>)"
  by (simp add: MultiEdit_run_def MultiEdit_try_def isabs_def path_exists_def str_nat.simps)

section \<open>Properties of the notebook tools\<close>

lemma find_by_id_range:
  "find_by_id cid i xs = Inr (Some k) \<Longrightarrow> i \<le> k \<and> k < i + length xs"
proof (induction xs arbitrary: i)
  case Nil
  then show ?case by simp
next
  case (Cons x xs)
  show ?case
  proof (cases "py_get x (ustr ''id'') = Inr (Some (JStr cid))")
    case True
    with Cons.prems show ?thesis by simp
  next
    case False
    with Cons.prems have "find_by_id cid (i + 1) xs = Inr (Some k)"
      by (auto split: sum.splits if_splits)
    from Cons.IH [OF this] show ?thesis by simp
  qed
qed


text \<open>The editor's lookup: when some cell carries the id, the index it resolves to is
  that of the first such cell.\<close>

lemma find_by_id_first_match:
  "find_by_id cid i xs = Inr (Some k) \<Longrightarrow>
     py_get (xs ! (k - i)) (ustr ''id'') = Inr (Some (JStr cid)) \<and>
     (\<forall>j<k - i. py_get (xs ! j) (ustr ''id'') \<noteq> Inr (Some (JStr cid)))"
proof (induction xs arbitrary: i)
  case Nil
  then show ?case by simp
next
  case (Cons x xs)
  show ?case
  proof (cases "py_get x (ustr ''id'') = Inr (Some (JStr cid))")
    case True
    with Cons.prems show ?thesis by simp
  next
    case False
    with Cons.prems have rest: "find_by_id cid (i + 1) xs = Inr (Some k)"
      by (auto split: sum.splits if_splits)
    from find_by_id_range [OF rest] have "k - i = Suc (k - (i + 1))" by linarith
    with Cons.IH [OF rest] False show ?thesis
      by (auto simp: less_Suc_eq_0_disj)
  qed
qed

lemma editor_resolves_id_first:
  assumes "find_by_id cid 0 xs = Inr (Some k)"
  shows "resolve_edit lib (JArr xs) cid = Inr (Some k) \<and>
         py_get (xs ! k) (ustr ''id'') = Inr (Some (JStr cid))"
  using assms find_by_id_first_match [OF assms] by (simp add: resolve_edit_def)











text \<open>
  C4.  The editor looks for a cell with the given id in the whole list before it reads
  \<open>cell_id\<close> as an index; the reader tries the index inside its loop, as soon as the
  first cell's id differs.  On a notebook whose second cell has the id \<open>0\<close>, the
  editor resolves \<open>cell_id = "0"\<close> to that cell (index 1) and the reader to the first
  cell: the two tools do not agree, and the reader does not return the cell with the
  matching id.
\<close>

theorem reader_takes_index_before_id:
  "resolve_edit lib (JArr example_cells) (ustr ''0'') = Inr (Some 1) \<and>
   read_target lib (JArr example_cells) (ustr ''0'') = Inr (example_cells ! 0) \<and>
   example_cells ! 0 \<noteq> example_cells ! 1"
  by (simp add: resolve_edit_def read_target_def example_cells_def dict_get_def py_int_def
      ascii_form_def signed_value_def strip_def is_space_def is_digit_def)

text \<open>The characters 28 to 31 are no whitespace for \<open>int\<close>: \<open>int('\x1f1')\<close> raises
  \<open>ValueError\<close>, so such a \<open>cell_id\<close> is never read as an index.\<close>

lemma py_int_information_separator: "py_int lib [31, 49] = None"
  by (simp add: py_int_def ascii_form_def signed_value_def strip_def is_space_def is_digit_def)

section \<open>Properties of TodoWrite\<close>

text \<open>
  C8 (as amended).  A todo list with two or more items \<open>in_progress\<close> is not displayed:
  the run returns before the formatted list.  When the ids are unique the response is the
  warning that begins with \<open>Warning:\<close> and lists the contents of the items in progress;
  when they are not, the earlier check answers \<open>Error: All todo items must have unique
  IDs\<close>.
\<close>

theorem todo_two_in_progress:
  assumes "1 < length (filter (\<lambda>t. status t = In_progress) todos)"
  shows "(distinct (map todo_id todos) \<longrightarrow>
            TodoWrite_run percent todos =
              (ustr ''Warning: Multiple tasks marked as in_progress. Recommended to have only one task in_progress at a time:\<newline>'') @
              join (ustr ''\<newline>'') (map (\<lambda>t. (ustr ''- '') @ content t)
                                 (filter (\<lambda>t. status t = In_progress) todos))) \<and>
         (\<not> distinct (map todo_id todos) \<longrightarrow>
            TodoWrite_run percent todos = ustr ''Error: All todo items must have unique IDs'') \<and>
         \<not> starts_with (TodoWrite_run percent todos) (ustr ''=== TODO LIST ==='')"
proof -
  from assms have ne: "todos \<noteq> []" by auto
  with assms show ?thesis
    by (simp add: TodoWrite_run_def Let_def comp_def)
qed

theorem todo_two_in_progress_witness:
  "TodoWrite_run example_percent
     [todo (ustr ''1'') (ustr ''write'') In_progress High, todo (ustr ''2'') (ustr ''test'') In_progress Low] =
     (ustr ''Warning: Multiple tasks marked as in_progress. Recommended to have only one task in_progress at a time:\<newline>- write\<newline>- test'') \<and>
   TodoWrite_run example_percent
     [todo (ustr ''1'') (ustr ''write'') In_progress High, todo (ustr ''1'') (ustr ''test'') In_progress Low] =
     (ustr ''Error: All todo items must have unique IDs'')"
  using todo_two_in_progress [of "[todo (ustr ''1'') (ustr ''write'') In_progress High, todo (ustr ''2'') (ustr ''test'') In_progress Low]" example_percent]
    todo_two_in_progress [of "[todo (ustr ''1'') (ustr ''write'') In_progress High, todo (ustr ''1'') (ustr ''test'') In_progress Low]" example_percent]
  by (simp add: todo_def)

text \<open>
  C8 as stated fails: for two items in progress with different ids the response does not
  begin with \<open>Error:\<close>.
\<close>

theorem todo_two_in_progress_counterexample:
  "\<not> starts_with (TodoWrite_run example_percent
        [todo (ustr ''1'') (ustr ''write'') In_progress High, todo (ustr ''2'') (ustr ''test'') In_progress Low]) (ustr ''Error:'')"
  by (simp add: TodoWrite_run_def todo_def)

end
